theory Spec2Isabelle
  imports Complex_Main
begin

section \<open>Data model\<close>

text \<open>
  The program is a single script, \<^verbatim>\<open>cli.js\<close>: a command-line client that keeps an
  access token and a list of devices in a Configstore file and prints what a remote
  API answers. The records below are the JSON shapes the script reads and writes.
  \<^verbatim>\<open>{id: n.device_id, name: n.description}\<close> is the cached record; the field
  \<^verbatim>\<open>id\<close> is written \<open>id'\<close>, \<^verbatim>\<open>value\<close> is \<open>value'\<close> and \<^verbatim>\<open>type\<close> is \<open>type'\<close>.
  Numbers (\<open>'n\<close>) and dates (\<open>'t\<close>) of the API stay abstract.
\<close>

record DeviceRecord =
  id' :: string
  name :: string

record 't remote_device =
  device_id :: string
  description :: string
  offline :: bool
  active :: bool
  last_heard_from_at :: 't

record ('n, 't) sample =
  value' :: 'n
  datetime :: 't

record text_param =
  param_value :: string

record 't timeline_event =
  type' :: string
  created_at :: 't
  text_params :: "text_param list"

record token_response =
  access_token :: string

text \<open>
  The Configstore file holds two keys, \<^verbatim>\<open>token\<close> and \<^verbatim>\<open>devices\<close>; \<open>None\<close> is a
  key that is not in the file (\<^verbatim>\<open>conf.get\<close> answers \<^verbatim>\<open>undefined\<close>).
\<close>

record config =
  token :: "string option"
  devices :: "DeviceRecord list option"

section \<open>Console output, requests and the state of one run\<close>

text \<open>
  A line given to \<^verbatim>\<open>console.log\<close> is kept with its chalk styling as markup.
  \<open>Inspected\<close> is the dump \<^verbatim>\<open>util.inspect(res, ...)\<close> of the \<^verbatim>\<open>--debug\<close> option.
\<close>

datatype chalk = green | yellow | red | underline

datatype markup = Str string | Styled chalk markup | Cat markup markup | Inspected

datatype param = PStr string | PNum int | PBool bool

record request =
  baseURL :: string
  url :: string
  params :: "(string \<times> param) list"
  authorization :: "string option"

text \<open>
  Everything a run does to the outside is recorded in order: a printed line, a GET
  request, a write to the Configstore file.
\<close>

datatype event =
    Log markup
  | Get request
  | Set_token string
  | Set_devices "DeviceRecord list"
  | Clear

record state =
  conf :: config
  trace :: "event list"

text \<open>
  How a run ends: the script runs to its end, \<^verbatim>\<open>process.exit(n)\<close> is called, a
  \<^verbatim>\<open>TypeError\<close> is thrown in the synchronous part of an action, or a promise is
  rejected (by axios, or by a \<^verbatim>\<open>TypeError\<close> thrown in a \<^verbatim>\<open>then\<close> handler) with no
  \<^verbatim>\<open>catch\<close> handler on its chain.
\<close>

datatype outcome = Finished | Exited nat | Uncaught_TypeError | Unhandled_Rejection

text \<open>
  The answer of the remote API to one request. axios resolves the promise with the
  response on success; otherwise it rejects, and the handlers of the script read
  \<^verbatim>\<open>res.data.message\<close> of what they are given: \<open>Rejected m\<close> carries that message.
\<close>

datatype 'a response = Resolved 'a | Rejected string

definition apiURL :: string where
  "apiURL = ''https://api.minut.com/draft1''"

definition console_log :: "markup \<Rightarrow> state \<Rightarrow> state" where
  "console_log t s = s\<lparr>trace := trace s @ [Log t]\<rparr>"

definition axios_get :: "request \<Rightarrow> state \<Rightarrow> state" where
  "axios_get r s = s\<lparr>trace := trace s @ [Get r]\<rparr>"

definition conf_set_token :: "string \<Rightarrow> state \<Rightarrow> state" where
  "conf_set_token v s = s\<lparr>conf := (conf s)\<lparr>token := Some v\<rparr>, trace := trace s @ [Set_token v]\<rparr>"

definition conf_set_devices :: "DeviceRecord list \<Rightarrow> state \<Rightarrow> state" where
  "conf_set_devices v s = s\<lparr>conf := (conf s)\<lparr>devices := Some v\<rparr>, trace := trace s @ [Set_devices v]\<rparr>"

definition conf_clear :: "state \<Rightarrow> state" where
  "conf_clear s = s\<lparr>conf := \<lparr>token = None, devices = None\<rparr>, trace := trace s @ [Clear]\<rparr>"

text \<open>The header \<^verbatim>\<open>`Bearer ${conf.get('token')}`\<close>: a missing token prints as \<^verbatim>\<open>undefined\<close>.\<close>

definition bearer :: "string option \<Rightarrow> string" where
  "bearer t = ''Bearer '' @ (case t of None \<Rightarrow> ''undefined'' | Some v \<Rightarrow> v)"

section \<open>lodash on arrays\<close>

text \<open>
  \<^verbatim>\<open>_.first\<close> and \<^verbatim>\<open>_.last\<close> answer \<^verbatim>\<open>undefined\<close> (\<open>None\<close>) on an empty array and on
  \<^verbatim>\<open>undefined\<close>. \<^verbatim>\<open>_.find(devices, ['name', deviceName])\<close> answers the first element
  whose \<^verbatim>\<open>name\<close> is strictly equal to \<^verbatim>\<open>deviceName\<close>, and \<^verbatim>\<open>undefined\<close> when there is
  none; with \<^verbatim>\<open>deviceName\<close> undefined no cached record matches, since a record read
  back from the JSON file has no undefined field.
\<close>

definition lodash_first :: "'a list option \<Rightarrow> 'a option" where
  "lodash_first array = (case array of None \<Rightarrow> None | Some [] \<Rightarrow> None | Some (x # _) \<Rightarrow> Some x)"

definition lodash_last :: "'a list \<Rightarrow> 'a option" where
  "lodash_last array = (if array = [] then None else Some (last array))"

definition lodash_find_name :: "DeviceRecord list option \<Rightarrow> string option \<Rightarrow> DeviceRecord option" where
  "lodash_find_name collection deviceName =
     (case collection of
        None \<Rightarrow> None
      | Some ds \<Rightarrow> (case deviceName of None \<Rightarrow> None | Some n \<Rightarrow> find (\<lambda>d. name d = n) ds))"

section \<open>Methods\<close>

text \<open>
  \<^verbatim>\<open>getDevice\<close>: \<^verbatim>\<open>_.find(devices, ['name', deviceName]) || _.first(devices)\<close>. A record
  is an object, hence truthy, so \<^verbatim>\<open>||\<close> takes its right operand only when nothing was found.
\<close>

definition getDevice :: "config \<Rightarrow> string option \<Rightarrow> DeviceRecord option" where
  "getDevice c deviceName =
     (let devs = devices c in
      case lodash_find_name devs deviceName of
        Some d \<Rightarrow> Some d
      | None \<Rightarrow> lodash_first devs)"

text \<open>
  \<^verbatim>\<open>checkAuth\<close>: a token that is missing or the empty string is falsy; then the
  guidance is printed and \<^verbatim>\<open>process.exit(1)\<close> ends the run at once (\<open>Inl\<close>).
\<close>

definition no_token_message :: markup where
  "no_token_message =
     Styled yellow (Cat (Str ''You don't have an access token yet! Run '')
                   (Cat (Styled underline (Str ''point auth'')) (Str '' to get started.'')))"

definition checkAuth :: "state \<Rightarrow> state + state" where
  "checkAuth s =
     (case token (conf s) of
        None \<Rightarrow> Inl (console_log no_token_message s)
      | Some t \<Rightarrow> if t = [] then Inl (console_log no_token_message s) else Inr s)"

subsection \<open>Numbers and dates of the libraries\<close>

text \<open>
  What the script leaves to its libraries on values this theory does not look into:
  \<^verbatim>\<open>_.round(x, p)\<close> and the printing of a JavaScript number, \<^verbatim>\<open>dateFormat(date, mask)\<close>
  of the dateformat package, and \<^verbatim>\<open>_.startCase\<close> on the strings for which lodash
  leaves its plain ASCII path (see \<open>startCase\<close> below). They are parameters of the model.
\<close>

record ('n, 't) ext =
  lodash_round :: "'n \<Rightarrow> int \<Rightarrow> 'n"
  number_toString :: "'n \<Rightarrow> string"
  dateFormat :: "'t \<Rightarrow> string \<Rightarrow> string"
  startCase_unicode :: "string \<Rightarrow> string"

definition formatDate :: "('n, 't) ext \<Rightarrow> 't \<Rightarrow> string" where
  "formatDate X date = dateFormat X date ''HH:MM dd/mm/yyyy''"

fun string_of_nat :: "nat \<Rightarrow> string" where
  "string_of_nat n =
     (if n < 10 then [''0123456789'' ! n]
      else string_of_nat (n div 10) @ [''0123456789'' ! (n mod 10)])"

declare string_of_nat.simps [simp del]

text \<open>\<^verbatim>\<open>Array.prototype.join\<close> on strings.\<close>

fun join :: "string \<Rightarrow> string list \<Rightarrow> string" where
  "join sep [] = []"
| "join sep [x] = x"
| "join sep (x # y # ys) = x @ sep @ join sep (y # ys)"

subsection \<open>fetchDevices and auth\<close>

text \<open>
  The callback of \<^verbatim>\<open>_.map\<close> in \<^verbatim>\<open>fetchDevices\<close> prints a line and returns the cached
  record, element after element.
\<close>

fun map_devices :: "'t remote_device list \<Rightarrow> state \<Rightarrow> DeviceRecord list \<times> state" where
  "map_devices [] s = ([], s)"
| "map_devices (n # ns) s =
     (let s1 = console_log (Str (''Name: '' @ description n)) s;
          r = \<lparr>id' = device_id n, name = description n\<rparr>;
          (rs, s2) = map_devices ns s1
      in (r # rs, s2))"

definition fetchDevices :: "'t remote_device list response \<Rightarrow> state \<Rightarrow> outcome \<times> state" where
  "fetchDevices res s =
     (let config = \<lparr>baseURL = apiURL, url = ''/devices'', params = [],
                    authorization = Some (bearer (token (conf s)))\<rparr>;
          s1 = console_log (Styled green (Str ''Fetching Points...'')) s;
          s2 = axios_get config s1
      in case res of
           Resolved ds \<Rightarrow>
             (let s3 = console_log (Str (''Found '' @ string_of_nat (length ds) @ '' Point'')) s2;
                  (allDevices, s4) = map_devices ds s3
              in (Finished, conf_set_devices allDevices s4))
         | Rejected m \<Rightarrow> (Finished, console_log (Styled red (Str m)) s2))"

text \<open>
  \<^verbatim>\<open>auth\<close>: the first \<^verbatim>\<open>then\<close> stores the token and prints, the second calls
  \<^verbatim>\<open>fetchDevices\<close>; a rejected token request skips both and reaches \<^verbatim>\<open>catch\<close>.
\<close>

definition auth ::
  "string \<Rightarrow> string \<Rightarrow> string \<Rightarrow> token_response response \<Rightarrow> 't remote_device list response
     \<Rightarrow> state \<Rightarrow> outcome \<times> state" where
  "auth client_id username password res dev_res s =
     (let config = \<lparr>baseURL = apiURL, url = ''/auth/token'',
                    params = [(''client_id'', PStr client_id), (''grant_type'', PStr ''password''),
                              (''username'', PStr username), (''password'', PStr password)],
                    authorization = None\<rparr>;
          s1 = axios_get config s
      in case res of
           Resolved r \<Rightarrow>
             (let s2 = conf_set_token (access_token r) s1;
                  s3 = console_log (Styled green (Str ''Access token generated and saved!'')) s2
              in fetchDevices dev_res s3)
         | Rejected m \<Rightarrow> (Finished, console_log (Styled yellow (Str m)) s1))"

subsection \<open>timelinePrettier\<close>

definition is_lower :: "char \<Rightarrow> bool" where
  "is_lower c = (97 \<le> (of_char c :: nat) \<and> (of_char c :: nat) \<le> 122)"

definition is_upper :: "char \<Rightarrow> bool" where
  "is_upper c = (65 \<le> (of_char c :: nat) \<and> (of_char c :: nat) \<le> 90)"

definition is_digit :: "char \<Rightarrow> bool" where
  "is_digit c = (48 \<le> (of_char c :: nat) \<and> (of_char c :: nat) \<le> 57)"

definition is_alpha :: "char \<Rightarrow> bool" where
  "is_alpha c = (is_lower c \<or> is_upper c)"

definition is_alnum :: "char \<Rightarrow> bool" where
  "is_alnum c = (is_alpha c \<or> is_digit c)"

text \<open>
  \<^verbatim>\<open>_.replace(s, /:/g, ' ')\<close>: every colon becomes a space.
\<close>

definition replace_colons :: "string \<Rightarrow> string" where
  "replace_colons s = map (\<lambda>c. if c = CHR '':'' then CHR '' '' else c) s"

text \<open>
  \<^verbatim>\<open>_.startCase\<close> of lodash 4 splits its argument into words and joins them with one
  space, the first character of each in upper case (\<^verbatim>\<open>upperFirst\<close>); the other
  characters stay as they are. Which words: lodash tests the string with
  \<^verbatim>\<open>/[a-z][A-Z]|[A-Z]{2}[a-z]|[0-9][a-zA-Z]|[a-zA-Z][0-9]|[^a-zA-Z0-9 ]/\<close>
  (\<open>hasUnicodeWord\<close>). When the test fails the string holds only ASCII letters,
  digits and spaces, removing accents and apostrophes changes nothing, and the words
  are the maximal runs matched by \<^verbatim>\<open>/[^\x00-\x2f\x3a-\x40\x5b-\x60\x7b-\x7f]+/g\<close>
  (\<open>asciiWords\<close>). When the test succeeds lodash goes through its Unicode word
  pattern, which is left to the parameter \<open>startCase_unicode\<close>.
\<close>

fun hasUnicodeWord :: "string \<Rightarrow> bool" where
  "hasUnicodeWord [] = False"
| "hasUnicodeWord (c # cs) =
     (if is_alnum c \<or> c = CHR '' ''
      then (case cs of
              [] \<Rightarrow> False
            | d # ds \<Rightarrow>
                (is_lower c \<and> is_upper d) \<or>
                (is_upper c \<and> is_upper d \<and> (case ds of [] \<Rightarrow> False | e # _ \<Rightarrow> is_lower e)) \<or>
                (is_digit c \<and> is_alpha d) \<or>
                (is_alpha c \<and> is_digit d) \<or>
                hasUnicodeWord cs)
      else True)"

definition is_asciiWord_char :: "char \<Rightarrow> bool" where
  "is_asciiWord_char c = (is_alnum c \<or> 128 \<le> (of_char c :: nat))"

fun asciiWords_from :: "string \<Rightarrow> string \<Rightarrow> string list" where
  "asciiWords_from cur [] = (if cur = [] then [] else [cur])"
| "asciiWords_from cur (c # cs) =
     (if is_asciiWord_char c then asciiWords_from (cur @ [c]) cs
      else (if cur = [] then [] else [cur]) @ asciiWords_from [] cs)"

definition asciiWords :: "string \<Rightarrow> string list" where
  "asciiWords s = asciiWords_from [] s"

text \<open>\<^verbatim>\<open>toUpperCase\<close> on one ASCII character.\<close>

definition toUpperCase_ascii :: "char \<Rightarrow> char" where
  "toUpperCase_ascii c =
     (case map_of (zip ''abcdefghijklmnopqrstuvwxyz'' ''ABCDEFGHIJKLMNOPQRSTUVWXYZ'') c of
        Some u \<Rightarrow> u
      | None \<Rightarrow> c)"

definition upperFirst :: "string \<Rightarrow> string" where
  "upperFirst w = (case w of [] \<Rightarrow> [] | c # cs \<Rightarrow> toUpperCase_ascii c # cs)"

definition startCase :: "('n, 't) ext \<Rightarrow> string \<Rightarrow> string" where
  "startCase X s =
     (if hasUnicodeWord s then startCase_unicode X s
      else join '' '' (map upperFirst (asciiWords s)))"

definition timelinePrettier :: "('n, 't) ext \<Rightarrow> string \<Rightarrow> string" where
  "timelinePrettier X s = startCase X (replace_colons s)"

section \<open>The comparison of an array with a number\<close>

text \<open>
  The \<^verbatim>\<open>devices\<close> command tests \<^verbatim>\<open>res.data.devices > 1\<close> with the array itself on the
  left. JavaScript turns the array into a primitive with \<^verbatim>\<open>Array.prototype.toString\<close>,
  that is \<^verbatim>\<open>join(',')\<close>, every device object printing as \<^verbatim>\<open>[object Object]\<close>; the
  string is then read as a number (\<^verbatim>\<open>StringToNumber\<close>: \<open>NaN\<close> unless the trimmed string
  is empty or a numeric literal), and a comparison with \<open>NaN\<close> is false. A finite number
  is kept as the exact value of its literal.
\<close>

datatype number = NaN | Finite rat | PosInfinity | NegInfinity

definition is_StrWhiteSpaceChar :: "char \<Rightarrow> bool" where
  "is_StrWhiteSpaceChar c = ((of_char c :: nat) \<in> {9, 10, 11, 12, 13, 32})"

definition trim :: "string \<Rightarrow> string" where
  "trim s = rev (dropWhile is_StrWhiteSpaceChar (rev (dropWhile is_StrWhiteSpaceChar s)))"

definition digit_of :: "char \<Rightarrow> nat" where
  "digit_of c =
     (case map_of (zip ''0123456789abcdefABCDEF''
                       [0, 1, 2, 3, 4, 5, 6, 7, 8, 9, 10, 11, 12, 13, 14, 15, 10, 11, 12, 13, 14, 15]) c of
        Some d \<Rightarrow> d
      | None \<Rightarrow> 16)"

definition digits_value :: "nat \<Rightarrow> string \<Rightarrow> nat option" where
  "digits_value b ds =
     (if ds = [] then None
      else if list_all (\<lambda>c. digit_of c < b) ds then Some (foldl (\<lambda>a c. a * b + digit_of c) 0 ds)
      else None)"

definition NonDecimalIntegerLiteral :: "string \<Rightarrow> nat option" where
  "NonDecimalIntegerLiteral t =
     (case t of
        z # x # ds \<Rightarrow>
          if z = CHR ''0'' \<and> (x = CHR ''x'' \<or> x = CHR ''X'') then digits_value 16 ds
          else if z = CHR ''0'' \<and> (x = CHR ''o'' \<or> x = CHR ''O'') then digits_value 8 ds
          else if z = CHR ''0'' \<and> (x = CHR ''b'' \<or> x = CHR ''B'') then digits_value 2 ds
          else None
      | _ \<Rightarrow> None)"

definition ExponentPart :: "string \<Rightarrow> int option" where
  "ExponentPart r =
     (case r of
        [] \<Rightarrow> Some 0
      | c # ds \<Rightarrow>
          if c = CHR ''e'' \<or> c = CHR ''E''
          then (case ds of
                  [] \<Rightarrow> None
                | g # d \<Rightarrow>
                    if g = CHR ''+'' then map_option int (digits_value 10 d)
                    else if g = CHR ''-'' then map_option (\<lambda>n. - int n) (digits_value 10 d)
                    else map_option int (digits_value 10 ds))
          else None)"

definition scale10 :: "rat \<Rightarrow> int \<Rightarrow> rat" where
  "scale10 q e = (if 0 \<le> e then q * 10 ^ nat e else q / 10 ^ nat (- e))"

definition StrUnsignedDecimalLiteral :: "string \<Rightarrow> number" where
  "StrUnsignedDecimalLiteral u =
     (if u = ''Infinity'' then PosInfinity
      else
        (let ip = takeWhile is_digit u;
             r1 = dropWhile is_digit u;
             fp = (case r1 of [] \<Rightarrow> [] | c # r \<Rightarrow> if c = CHR ''.'' then takeWhile is_digit r else []);
             r2 = (case r1 of [] \<Rightarrow> [] | c # r \<Rightarrow> if c = CHR ''.'' then dropWhile is_digit r else r1)
         in if ip = [] \<and> fp = [] then NaN
            else (case ExponentPart r2 of
                    None \<Rightarrow> NaN
                  | Some e \<Rightarrow>
                      Finite (scale10 (of_nat (foldl (\<lambda>a c. a * 10 + digit_of c) 0 ip)
                                       + of_nat (foldl (\<lambda>a c. a * 10 + digit_of c) 0 fp) / 10 ^ length fp) e))))"

fun negate :: "number \<Rightarrow> number" where
  "negate NaN = NaN"
| "negate (Finite q) = Finite (- q)"
| "negate PosInfinity = NegInfinity"
| "negate NegInfinity = PosInfinity"

definition StrDecimalLiteral :: "string \<Rightarrow> number" where
  "StrDecimalLiteral t =
     (case t of
        [] \<Rightarrow> NaN
      | c # u \<Rightarrow>
          if c = CHR ''+'' then StrUnsignedDecimalLiteral u
          else if c = CHR ''-'' then negate (StrUnsignedDecimalLiteral u)
          else StrUnsignedDecimalLiteral t)"

definition StringToNumber :: "string \<Rightarrow> number" where
  "StringToNumber s =
     (let t = trim s
      in if t = [] then Finite 0
         else (case NonDecimalIntegerLiteral t of
                 Some n \<Rightarrow> Finite (of_nat n)
               | None \<Rightarrow> StrDecimalLiteral t))"

text \<open>\<^verbatim>\<open>x > y\<close> on numbers: false as soon as one side is \<open>NaN\<close>.\<close>

fun number_gt :: "number \<Rightarrow> number \<Rightarrow> bool" where
  "number_gt NaN y = False"
| "number_gt x NaN = False"
| "number_gt (Finite x) (Finite y) = (y < x)"
| "number_gt (Finite x) PosInfinity = False"
| "number_gt (Finite x) NegInfinity = True"
| "number_gt PosInfinity PosInfinity = False"
| "number_gt PosInfinity y = True"
| "number_gt NegInfinity y = False"

definition array_toString :: "'t remote_device list \<Rightarrow> string" where
  "array_toString array = join '','' (map (\<lambda>d. ''[object Object]'') array)"

definition array_gt_1 :: "'t remote_device list \<Rightarrow> bool" where
  "array_gt_1 array = number_gt (StringToNumber (array_toString array)) (Finite 1)"

section \<open>Commands\<close>

text \<open>
  \<^verbatim>\<open>req\<close> is created once, when the script is loaded, with the token the Configstore
  file holds then; \<open>c0\<close> is the configuration at that moment.
\<close>

definition req_get :: "config \<Rightarrow> string \<Rightarrow> (string \<times> param) list \<Rightarrow> state \<Rightarrow> state" where
  "req_get c0 path ps s =
     axios_get \<lparr>baseURL = apiURL, url = path, params = ps,
                authorization = Some (bearer (token c0))\<rparr> s"

text \<open>
  Strings are sequences of bytes; the characters of the script outside ASCII (the
  check mark and the cross, the two arrows, the degree sign) are written in UTF-8.
\<close>

definition check_mark :: string where
  "check_mark = [CHR 0xE2, CHR 0x9C, CHR 0x94]"

definition cross_mark :: string where
  "cross_mark = [CHR 0xE2, CHR 0x9C, CHR 0x97]"

definition right_arrow :: string where
  "right_arrow = [CHR 0xE2, CHR 0x86, CHR 0x92]"

definition down_arrow :: string where
  "down_arrow = [CHR 0xE2, CHR 0x86, CHR 0x93]"

definition degree_sign :: string where
  "degree_sign = [CHR 0xC2, CHR 0xB0]"

definition logout_command :: "state \<Rightarrow> outcome \<times> state" where
  "logout_command s = (Finished, conf_clear s)"

definition fetch_command :: "'t remote_device list response \<Rightarrow> state \<Rightarrow> outcome \<times> state" where
  "fetch_command res s =
     (case checkAuth s of
        Inl s' \<Rightarrow> (Exited 1, s')
      | Inr s' \<Rightarrow> fetchDevices res s')"

subsection \<open>devices\<close>

text \<open>
  The loop \<^verbatim>\<open>for (var device of res.data.devices)\<close>; \<open>array\<close> is the whole
  \<^verbatim>\<open>res.data.devices\<close>, which the test before the blank line reads.
\<close>

fun devices_for ::
  "('n, 't) ext \<Rightarrow> bool \<Rightarrow> 't remote_device list \<Rightarrow> 't remote_device list \<Rightarrow> state \<Rightarrow> state" where
  "devices_for X verbose array [] s = s"
| "devices_for X verbose array (device # rest) s =
     (let s1 = console_log (Cat (Str ''Name: '') (Styled green (Str (description device)))) s;
          s2 = console_log (Cat (Str ''ID: '') (Styled green (Str (device_id device)))) s1;
          s3 = (if verbose
                then console_log (Cat (Str ''Last seen: '')
                                      (Styled green (Str (formatDate X (last_heard_from_at device)))))
                       (console_log (Cat (Str ''Active: '')
                                         (Styled green (Str (if active device then check_mark else cross_mark))))
                          (console_log (Cat (Str ''Online: '')
                                            (Styled green (Str (if offline device then cross_mark else check_mark))))
                             s2))
                else s2);
          s4 = (if array_gt_1 array then console_log (Str [CHR 0x0A]) s3 else s3)
      in devices_for X verbose array rest s4)"

definition devices_command ::
  "('n, 't) ext \<Rightarrow> bool \<Rightarrow> bool \<Rightarrow> 't remote_device list response \<Rightarrow> state \<Rightarrow> outcome \<times> state" where
  "devices_command X verbose debug res s =
     (case checkAuth s of
        Inl s' \<Rightarrow> (Exited 1, s')
      | Inr s0 \<Rightarrow>
          (let s1 = req_get (conf s) ''/devices'' [] s0
           in case res of
                Rejected m \<Rightarrow> (Unhandled_Rejection, s1)
              | Resolved ds \<Rightarrow>
                  (let s2 = (if debug then console_log Inspected s1 else s1)
                   in (Finished, devices_for X verbose ds ds s2))))"

subsection \<open>temp, humidity, sound, light, lightir, pressure\<close>

text \<open>
  The six sensor commands are the same action up to the path of the request, the
  label and the way the value is printed.
\<close>

datatype sensor = Temperature | Humidity | Sound | Light | LightIR | Pressure

fun endpoint :: "sensor \<Rightarrow> string" where
  "endpoint Temperature = ''temperature''"
| "endpoint Humidity = ''humidity''"
| "endpoint Sound = ''sound_avg_levels''"
| "endpoint Light = ''part_als''"
| "endpoint LightIR = ''part_als_ir''"
| "endpoint Pressure = ''pressure''"

fun value_line :: "('n, 't) ext \<Rightarrow> sensor \<Rightarrow> 'n \<Rightarrow> markup" where
  "value_line X Temperature v =
     Cat (Str ''Temp: '') (Styled green (Str (number_toString X (lodash_round X v 2) @ degree_sign @ ''C'')))"
| "value_line X Humidity v =
     Cat (Str ''Humidity: '') (Styled green (Str (number_toString X v @ ''%'')))"
| "value_line X Sound v = Cat (Str ''Avg sound: '') (Styled green (Str (number_toString X v)))"
| "value_line X Light v = Cat (Str ''Avg light: '') (Styled green (Str (number_toString X v)))"
| "value_line X LightIR v = Cat (Str ''Avg light IR: '') (Styled green (Str (number_toString X v)))"
| "value_line X Pressure v = Cat (Str ''Avg pressure: '') (Styled green (Str (number_toString X v)))"

definition time_line :: "('n, 't) ext \<Rightarrow> 't \<Rightarrow> markup" where
  "time_line X date = Cat (Str ''Time: '') (Styled green (Str (formatDate X date)))"

text \<open>
  \<^verbatim>\<open>point.name\<close> on an undefined \<^verbatim>\<open>point\<close> throws in the action itself; \<^verbatim>\<open>newest.value\<close>
  on an undefined \<^verbatim>\<open>newest\<close> throws inside the \<^verbatim>\<open>then\<close> handler, which rejects the
  promise the handler returns. No sensor command has a \<^verbatim>\<open>catch\<close>.
\<close>

definition sensor_command ::
  "('n, 't) ext \<Rightarrow> sensor \<Rightarrow> string option \<Rightarrow> bool \<Rightarrow> ('n, 't) sample list response
     \<Rightarrow> state \<Rightarrow> outcome \<times> state" where
  "sensor_command X sn device debug res s =
     (case checkAuth s of
        Inl s' \<Rightarrow> (Exited 1, s')
      | Inr s0 \<Rightarrow>
          (case getDevice (conf s0) device of
             None \<Rightarrow> (Uncaught_TypeError, s0)
           | Some point \<Rightarrow>
               (let s1 = console_log (Cat (Str ''Point: '') (Styled green (Str (name point)))) s0;
                    s2 = req_get (conf s) (''/devices/'' @ id' point @ ''/'' @ endpoint sn) [] s1
                in case res of
                     Rejected m \<Rightarrow> (Unhandled_Rejection, s2)
                   | Resolved vs \<Rightarrow>
                       (let s3 = (if debug then console_log Inspected s2 else s2)
                        in case lodash_last vs of
                             None \<Rightarrow> (Unhandled_Rejection, s3)
                           | Some newest \<Rightarrow>
                               (Finished,
                                console_log (time_line X (datetime newest))
                                  (console_log (value_line X sn (value' newest)) s3))))))"

subsection \<open>timeline\<close>

text \<open>
  The value commander gives \<^verbatim>\<open>opts.limit\<close> for \<^verbatim>\<open>-l, --limit [number]\<close>: undefined
  without the option, \<^verbatim>\<open>true\<close> for the bare option, the string after it otherwise.
  \<^verbatim>\<open>(opts.limit) ? opts.limit : 10\<close> takes 10 when the value is falsy: undefined or
  the empty string.
\<close>

datatype optval = Unset | Flag | Val string

definition limit_param :: "optval \<Rightarrow> param" where
  "limit_param l =
     (case l of
        Unset \<Rightarrow> PNum 10
      | Flag \<Rightarrow> PBool True
      | Val v \<Rightarrow> if v = [] then PNum 10 else PStr v)"

definition device_lines :: "text_param list \<Rightarrow> state \<Rightarrow> state" where
  "device_lines ps s =
     foldl (\<lambda>s' param. console_log (Cat (Str ''Device: '') (Styled green (Str (param_value param)))) s')
       s (take 1 ps)"

fun timeline_for :: "('n, 't) ext \<Rightarrow> 't timeline_event list \<Rightarrow> state \<Rightarrow> state" where
  "timeline_for X [] s = s"
| "timeline_for X (event # rest) s =
     (let s1 = console_log (Styled green (Str down_arrow)) s;
          s2 = console_log (Cat (Str ''Date:   '') (Styled green (Str (formatDate X (created_at event))))) s1;
          s3 = device_lines (text_params event) s2;
          s4 = console_log (Cat (Str ''Event:  '') (Styled green (Str (timelinePrettier X (type' event))))) s3
      in timeline_for X rest s4)"

definition timeline_command ::
  "('n, 't) ext \<Rightarrow> optval \<Rightarrow> bool \<Rightarrow> 't timeline_event list response \<Rightarrow> state \<Rightarrow> outcome \<times> state" where
  "timeline_command X limit debug res s =
     (case checkAuth s of
        Inl s' \<Rightarrow> (Exited 1, s')
      | Inr s0 \<Rightarrow>
          (let config = [(''order'', PStr ''desc''), (''limit'', limit_param limit)];
               s1 = req_get (conf s) ''/events'' config s0
           in case res of
                Rejected m \<Rightarrow> (Unhandled_Rejection, s1)
              | Resolved timeline \<Rightarrow>
                  (let s2 = (if debug then console_log Inspected s1 else s1);
                       s3 = console_log (Styled green (Str (right_arrow @ '' Present''))) s2;
                       s4 = timeline_for X timeline s3
                   in (Finished, console_log (Styled green (Str (right_arrow @ '' Past''))) s4))))"

subsection \<open>One run of the script\<close>

text \<open>
  An invocation is a subcommand with its arguments and options, together with what
  the remote API answers to the requests the run makes (and, for \<^verbatim>\<open>auth\<close>, what the
  user types at the prompts).
\<close>

datatype ('n, 't) invocation =
    Auth_cmd string string string "token_response response" "'t remote_device list response"
  | Logout_cmd
  | Fetch_cmd "'t remote_device list response"
  | Devices_cmd bool bool "'t remote_device list response"
  | Sensor_cmd sensor "string option" bool "('n, 't) sample list response"
  | Timeline_cmd optval bool "'t timeline_event list response"

fun run :: "('n, 't) ext \<Rightarrow> ('n, 't) invocation \<Rightarrow> state \<Rightarrow> outcome \<times> state" where
  "run X (Auth_cmd clientID username password res dev_res) s = auth clientID username password res dev_res s"
| "run X Logout_cmd s = logout_command s"
| "run X (Fetch_cmd res) s = fetch_command res s"
| "run X (Devices_cmd verbose debug res) s = devices_command X verbose debug res s"
| "run X (Sensor_cmd sn device debug res) s = sensor_command X sn device debug res s"
| "run X (Timeline_cmd limit debug res) s = timeline_command X limit debug res s"


section \<open>Device resolution\<close>

lemma find_first_match:
  "P d \<Longrightarrow> list_all (\<lambda>x. \<not> P x) pre \<Longrightarrow> find P (pre @ d # post) = Some d"
  by (induction pre) auto

lemma find_no_match: "list_all (\<lambda>x. \<not> P x) xs \<Longrightarrow> find P xs = None"
  by (induction xs) auto

text \<open>
  Claim C1. For a cached device list \<open>ds\<close>, \<^verbatim>\<open>getDevice\<close> answers the first record
  whose name is equal, character for character, to the name asked for: if \<open>d\<close> has
  the name and no record before it has, the answer is \<open>d\<close>. If no record has the
  name, or no name is given, the answer is the first record of the list.
\<close>

theorem getDevice_resolves:
  "devices c = Some ds \<Longrightarrow>
     (ds = pre @ d # post \<and> name d = n \<and> n \<notin> name ` set pre \<longrightarrow> getDevice c (Some n) = Some d) \<and>
     (n \<notin> name ` set ds \<longrightarrow> getDevice c (Some n) = (case ds of [] \<Rightarrow> None | x # _ \<Rightarrow> Some x)) \<and>
     getDevice c None = (case ds of [] \<Rightarrow> None | x # _ \<Rightarrow> Some x)"
proof (intro conjI impI)
  assume c: "devices c = Some ds"
  {
    assume h: "ds = pre @ d # post \<and> name d = n \<and> n \<notin> name ` set pre"
    then have "list_all (\<lambda>x. \<not> name x = n) pre"
      unfolding list_all_iff by blast
    with h have "find (\<lambda>x. name x = n) ds = Some d"
      using find_first_match [of "\<lambda>x. name x = n" d pre post] by simp
    with c show "getDevice c (Some n) = Some d"
      by (simp add: getDevice_def lodash_find_name_def)
  }
  {
    assume "n \<notin> name ` set ds"
    then have "list_all (\<lambda>x. \<not> name x = n) ds"
      unfolding list_all_iff by blast
    then have "find (\<lambda>x. name x = n) ds = None"
      by (rule find_no_match)
    with c show "getDevice c (Some n) = (case ds of [] \<Rightarrow> None | x # _ \<Rightarrow> Some x)"
      by (simp add: getDevice_def lodash_find_name_def lodash_first_def split: list.splits)
  }
  from c show "getDevice c None = (case ds of [] \<Rightarrow> None | x # _ \<Rightarrow> Some x)"
    by (simp add: getDevice_def lodash_find_name_def lodash_first_def split: list.splits)
qed

text \<open>
  With two records named \<^verbatim>\<open>Kitchen\<close> the first one is taken; \<^verbatim>\<open>kitchen\<close> matches
  neither and falls back to the head of the list, as does a missing name.
\<close>

theorem getDevice_resolves_witness:
  "getDevice \<lparr>token = None, devices = Some [\<lparr>id' = ''a1'', name = ''Hall''\<rparr>,
       \<lparr>id' = ''b2'', name = ''Kitchen''\<rparr>, \<lparr>id' = ''c3'', name = ''Kitchen''\<rparr>]\<rparr> (Some ''Kitchen'')
     = Some \<lparr>id' = ''b2'', name = ''Kitchen''\<rparr> \<and>
   getDevice \<lparr>token = None, devices = Some [\<lparr>id' = ''a1'', name = ''Hall''\<rparr>,
       \<lparr>id' = ''b2'', name = ''Kitchen''\<rparr>, \<lparr>id' = ''c3'', name = ''Kitchen''\<rparr>]\<rparr> (Some ''kitchen'')
     = Some \<lparr>id' = ''a1'', name = ''Hall''\<rparr> \<and>
   getDevice \<lparr>token = None, devices = Some [\<lparr>id' = ''a1'', name = ''Hall''\<rparr>,
       \<lparr>id' = ''b2'', name = ''Kitchen''\<rparr>, \<lparr>id' = ''c3'', name = ''Kitchen''\<rparr>]\<rparr> None
     = Some \<lparr>id' = ''a1'', name = ''Hall''\<rparr>"
  using getDevice_resolves [of "\<lparr>token = None, devices = Some [\<lparr>id' = ''a1'', name = ''Hall''\<rparr>,
       \<lparr>id' = ''b2'', name = ''Kitchen''\<rparr>, \<lparr>id' = ''c3'', name = ''Kitchen''\<rparr>]\<rparr>"
       "[\<lparr>id' = ''a1'', name = ''Hall''\<rparr>, \<lparr>id' = ''b2'', name = ''Kitchen''\<rparr>, \<lparr>id' = ''c3'', name = ''Kitchen''\<rparr>]"
       "[\<lparr>id' = ''a1'', name = ''Hall''\<rparr>]" "\<lparr>id' = ''b2'', name = ''Kitchen''\<rparr>"
       "[\<lparr>id' = ''c3'', name = ''Kitchen''\<rparr>]" "''Kitchen''"]
    getDevice_resolves [of "\<lparr>token = None, devices = Some [\<lparr>id' = ''a1'', name = ''Hall''\<rparr>,
       \<lparr>id' = ''b2'', name = ''Kitchen''\<rparr>, \<lparr>id' = ''c3'', name = ''Kitchen''\<rparr>]\<rparr>"
       "[\<lparr>id' = ''a1'', name = ''Hall''\<rparr>, \<lparr>id' = ''b2'', name = ''Kitchen''\<rparr>, \<lparr>id' = ''c3'', name = ''Kitchen''\<rparr>]"
       "[]" "\<lparr>id' = ''a1'', name = ''Hall''\<rparr>" "[]" "''kitchen''"]
  by simp

section \<open>Latest-sample rendering\<close>

text \<open>
  Claim C2. With a token cached and a device resolved, a sensor command whose
  response holds the samples \<open>older @ [newest]\<close> prints the value and the time of
  \<open>newest\<close>, the last sample in the order of the response, and nothing of the older
  ones: after the \<^verbatim>\<open>Point:\<close> line and the request come the value line and the
  \<^verbatim>\<open>Time:\<close> line, the time being \<^verbatim>\<open>dateFormat\<close> of the sample's \<^verbatim>\<open>datetime\<close> with the
  mask \<^verbatim>\<open>HH:MM dd/mm/yyyy\<close>. The number printed is \<^verbatim>\<open>_.round(value, 2)\<close> for the
  temperature and the value itself for the five other sensors.
\<close>

theorem latest_sample_rendering:
  "token (conf s) = Some t \<Longrightarrow> t \<noteq> [] \<Longrightarrow> getDevice (conf s) device = Some point \<Longrightarrow>
   sensor_command X sn device debug (Resolved (older @ [newest])) s =
     (Finished,
      s\<lparr>trace := trace s @
          [Log (Cat (Str ''Point: '') (Styled green (Str (name point)))),
           Get \<lparr>baseURL = apiURL, url = ''/devices/'' @ id' point @ ''/'' @ endpoint sn, params = [],
                authorization = Some (''Bearer '' @ t)\<rparr>] @
          (if debug then [Log Inspected] else []) @
          [Log (value_line X sn (value' newest)),
           Log (Cat (Str ''Time: '')
                  (Styled green (Str (dateFormat X (datetime newest) ''HH:MM dd/mm/yyyy''))))]\<rparr>) \<and>
   (\<exists>label unit.
      value_line X sn (value' newest) =
        Cat (Str label)
          (Styled green
             (Str (number_toString X
                     (if sn = Temperature then lodash_round X (value' newest) 2 else value' newest) @ unit))))"
proof -
  assume tok: "token (conf s) = Some t" "t \<noteq> []" and dev: "getDevice (conf s) device = Some point"
  have auth: "checkAuth s = Inr s"
    using tok by (simp add: checkAuth_def)
  have lst: "lodash_last (older @ [newest]) = Some newest"
    by (simp add: lodash_last_def)
  have run: "sensor_command X sn device debug (Resolved (older @ [newest])) s =
     (Finished,
      s\<lparr>trace := trace s @
          [Log (Cat (Str ''Point: '') (Styled green (Str (name point)))),
           Get \<lparr>baseURL = apiURL, url = ''/devices/'' @ id' point @ ''/'' @ endpoint sn, params = [],
                authorization = Some (''Bearer '' @ t)\<rparr>] @
          (if debug then [Log Inspected] else []) @
          [Log (value_line X sn (value' newest)),
           Log (Cat (Str ''Time: '')
                  (Styled green (Str (dateFormat X (datetime newest) ''HH:MM dd/mm/yyyy''))))]\<rparr>)"
    using tok dev
    by (simp add: sensor_command_def auth lst req_get_def axios_get_def console_log_def bearer_def
        time_line_def formatDate_def)
  have "\<exists>label unit.
      value_line X sn v =
        Cat (Str label)
          (Styled green
             (Str (number_toString X (if sn = Temperature then lodash_round X v 2 else v) @ unit)))" for v
  proof (cases sn)
    case Temperature
    then show ?thesis by simp
  next
    case Humidity
    then show ?thesis by simp
  next
    case Sound
    then show ?thesis by simp
  next
    case Light
    then show ?thesis by simp
  next
    case LightIR
    then show ?thesis by simp
  next
    case Pressure
    then show ?thesis by simp
  qed
  with run show ?thesis by blast
qed

text \<open>
  The two samples of the specification's example, 19.2 at \<^verbatim>\<open>T1\<close> and 19.8 at \<^verbatim>\<open>T2\<close>:
  the temperature command reports the second.
\<close>

theorem latest_sample_rendering_witness:
  "\<forall>X :: (rat, string) ext.
     sensor_command X Temperature (Some ''Kitchen'') False
       (Resolved [\<lparr>value' = 192 / 10, datetime = ''T1''\<rparr>, \<lparr>value' = 198 / 10, datetime = ''T2''\<rparr>])
       \<lparr>conf = \<lparr>token = Some ''abc'', devices = Some [\<lparr>id' = ''d1'', name = ''Kitchen''\<rparr>]\<rparr>, trace = []\<rparr> =
     (Finished,
      \<lparr>conf = \<lparr>token = Some ''abc'', devices = Some [\<lparr>id' = ''d1'', name = ''Kitchen''\<rparr>]\<rparr>,
       trace =
         [Log (Cat (Str ''Point: '') (Styled green (Str ''Kitchen''))),
          Get \<lparr>baseURL = apiURL, url = ''/devices/d1/temperature'', params = [],
               authorization = Some ''Bearer abc''\<rparr>,
          Log (Cat (Str ''Temp: '')
                 (Styled green (Str (number_toString X (lodash_round X (198 / 10) 2) @ degree_sign @ ''C'')))),
          Log (Cat (Str ''Time: '') (Styled green (Str (dateFormat X ''T2'' ''HH:MM dd/mm/yyyy''))))]\<rparr>)"
proof
  fix X :: "(rat, string) ext"
  show "sensor_command X Temperature (Some ''Kitchen'') False
       (Resolved [\<lparr>value' = 192 / 10, datetime = ''T1''\<rparr>, \<lparr>value' = 198 / 10, datetime = ''T2''\<rparr>])
       \<lparr>conf = \<lparr>token = Some ''abc'', devices = Some [\<lparr>id' = ''d1'', name = ''Kitchen''\<rparr>]\<rparr>, trace = []\<rparr> =
     (Finished,
      \<lparr>conf = \<lparr>token = Some ''abc'', devices = Some [\<lparr>id' = ''d1'', name = ''Kitchen''\<rparr>]\<rparr>,
       trace =
         [Log (Cat (Str ''Point: '') (Styled green (Str ''Kitchen''))),
          Get \<lparr>baseURL = apiURL, url = ''/devices/d1/temperature'', params = [],
               authorization = Some ''Bearer abc''\<rparr>,
          Log (Cat (Str ''Temp: '')
                 (Styled green (Str (number_toString X (lodash_round X (198 / 10) 2) @ degree_sign @ ''C'')))),
          Log (Cat (Str ''Time: '') (Styled green (Str (dateFormat X ''T2'' ''HH:MM dd/mm/yyyy''))))]\<rparr>)"
    using latest_sample_rendering
      [of "\<lparr>conf = \<lparr>token = Some ''abc'', devices = Some [\<lparr>id' = ''d1'', name = ''Kitchen''\<rparr>]\<rparr>, trace = []\<rparr>"
          "''abc''" "Some ''Kitchen''" "\<lparr>id' = ''d1'', name = ''Kitchen''\<rparr>" X Temperature False
          "[\<lparr>value' = 192 / 10, datetime = ''T1''\<rparr>]" "\<lparr>value' = 198 / 10, datetime = ''T2''\<rparr>"]
    by (simp add: getDevice_def lodash_find_name_def)
qed

section \<open>Device refresh and authentication\<close>

lemma map_devices_eq:
  "map_devices ds s =
     (map (\<lambda>n. \<lparr>id' = device_id n, name = description n\<rparr>) ds,
      s\<lparr>trace := trace s @ map (\<lambda>n. Log (Str (''Name: '' @ description n))) ds\<rparr>)"
  by (induction ds arbitrary: s) (simp_all add: console_log_def)


text \<open>
  Claim C7. When the device request succeeds, \<^verbatim>\<open>fetchDevices\<close> replaces the cached
  list by the records \<^verbatim>\<open>{id: device_id, name: description}\<close> of the response, in the
  order of the response, whatever the cache held before; the token is not touched.
  When the request is rejected, the message of the server is printed and the
  configuration is the one before the call.
\<close>

theorem fetchDevices_overwrites:
  "fetchDevices (Resolved ds) s =
     (Finished,
      s\<lparr>conf := (conf s)\<lparr>devices := Some (map (\<lambda>n. \<lparr>id' = device_id n, name = description n\<rparr>) ds)\<rparr>,
        trace := trace s @
          [Log (Styled green (Str ''Fetching Points...'')),
           Get \<lparr>baseURL = apiURL, url = ''/devices'', params = [],
                authorization = Some (bearer (token (conf s)))\<rparr>,
           Log (Str (''Found '' @ string_of_nat (length ds) @ '' Point''))] @
          map (\<lambda>n. Log (Str (''Name: '' @ description n))) ds @
          [Set_devices (map (\<lambda>n. \<lparr>id' = device_id n, name = description n\<rparr>) ds)]\<rparr>) \<and>
   fetchDevices (Rejected m) s =
     (Finished,
      s\<lparr>trace := trace s @
          [Log (Styled green (Str ''Fetching Points...'')),
           Get \<lparr>baseURL = apiURL, url = ''/devices'', params = [],
                authorization = Some (bearer (token (conf s)))\<rparr>,
           Log (Styled red (Str m))]\<rparr>) \<and>
   conf (snd (fetchDevices (Rejected m) s)) = conf s"
  by (simp add: fetchDevices_def map_devices_eq console_log_def axios_get_def conf_set_devices_def)


text \<open>
  Claim C5. When the token request is rejected, \<^verbatim>\<open>auth\<close> prints the message of the
  server and does nothing else: the configuration (and so a token cached earlier)
  is unchanged, no refresh is started, and the run ends without \<^verbatim>\<open>process.exit\<close>.
\<close>

theorem auth_failure:
  "auth client_id username password (Rejected m) dev_res s =
     (Finished,
      s\<lparr>trace := trace s @
          [Get \<lparr>baseURL = apiURL, url = ''/auth/token'',
                params = [(''client_id'', PStr client_id), (''grant_type'', PStr ''password''),
                          (''username'', PStr username), (''password'', PStr password)],
                authorization = None\<rparr>,
           Log (Styled yellow (Str m))]\<rparr>) \<and>
   conf (snd (auth client_id username password (Rejected m) dev_res s)) = conf s"
  by (simp add: auth_def console_log_def axios_get_def)

section \<open>Rejected requests of the other commands\<close>

text \<open>
  Claim C3. The claim asks that every authenticated command print the message of a
  rejected request and end normally. \<^verbatim>\<open>fetch\<close> does, through the \<^verbatim>\<open>catch\<close> of
  \<^verbatim>\<open>fetchDevices\<close>. The promise chains of \<^verbatim>\<open>devices\<close>, of the six sensor commands and
  of \<^verbatim>\<open>timeline\<close> have no \<^verbatim>\<open>catch\<close>: with a token and the device \<^verbatim>\<open>Kitchen\<close> cached,
  a rejected temperature request leaves only the \<^verbatim>\<open>Point:\<close> line on the console, the
  message \<^verbatim>\<open>Unauthorized\<close> is printed nowhere and the rejection is unhandled; the
  same answer to \<^verbatim>\<open>fetch\<close> is printed in red. The cache is unchanged in both runs.
\<close>

theorem rejection_not_reported:
  "\<forall>X. sensor_command X Temperature None False (Rejected ''Unauthorized'')
         \<lparr>conf = \<lparr>token = Some ''abc'', devices = Some [\<lparr>id' = ''d1'', name = ''Kitchen''\<rparr>]\<rparr>, trace = []\<rparr> =
       (Unhandled_Rejection,
        \<lparr>conf = \<lparr>token = Some ''abc'', devices = Some [\<lparr>id' = ''d1'', name = ''Kitchen''\<rparr>]\<rparr>,
         trace = [Log (Cat (Str ''Point: '') (Styled green (Str ''Kitchen''))),
                  Get \<lparr>baseURL = apiURL, url = ''/devices/d1/temperature'', params = [],
                       authorization = Some ''Bearer abc''\<rparr>]\<rparr>) \<and>
       fetch_command (Rejected ''Unauthorized'')
         \<lparr>conf = \<lparr>token = Some ''abc'', devices = Some [\<lparr>id' = ''d1'', name = ''Kitchen''\<rparr>]\<rparr>, trace = []\<rparr> =
       (Finished,
        \<lparr>conf = \<lparr>token = Some ''abc'', devices = Some [\<lparr>id' = ''d1'', name = ''Kitchen''\<rparr>]\<rparr>,
         trace = [Log (Styled green (Str ''Fetching Points...'')),
                  Get \<lparr>baseURL = apiURL, url = ''/devices'', params = [],
                       authorization = Some ''Bearer abc''\<rparr>,
                  Log (Styled red (Str ''Unauthorized''))]\<rparr>)"
  by (simp add: sensor_command_def fetch_command_def fetchDevices_def checkAuth_def getDevice_def
      lodash_find_name_def lodash_first_def req_get_def axios_get_def console_log_def bearer_def)

section \<open>Commands without a token\<close>



section \<open>Empty cache, empty response\<close>

text \<open>
  Claim C8. Neither boundary case is guarded. On an empty cached list (or with no
  list cached at all) \<^verbatim>\<open>getDevice\<close>
  answers \<^verbatim>\<open>undefined\<close> for every name, and no error is reported: the sensor command
  prints nothing and stops on the \<^verbatim>\<open>TypeError\<close> of \<^verbatim>\<open>point.name\<close> before any request.
  On an empty sample sequence \<^verbatim>\<open>_.last\<close> answers \<^verbatim>\<open>undefined\<close>: the command has printed
  the \<^verbatim>\<open>Point:\<close> line and made its request, and prints neither value nor time.
\<close>

theorem empty_cases_unguarded:
  "getDevice \<lparr>token = tk, devices = Some []\<rparr> deviceName = None \<and>
   getDevice \<lparr>token = tk, devices = None\<rparr> deviceName = None \<and>
   lodash_last ([] :: ('n, 't) sample list) = None \<and>
   sensor_command X sn deviceName debug res
       \<lparr>conf = \<lparr>token = Some (k # t), devices = Some []\<rparr>, trace = tr\<rparr> =
     (Uncaught_TypeError, \<lparr>conf = \<lparr>token = Some (k # t), devices = Some []\<rparr>, trace = tr\<rparr>) \<and>
   sensor_command X sn None False (Resolved [])
       \<lparr>conf = \<lparr>token = Some (k # t), devices = Some (d # ds)\<rparr>, trace = tr\<rparr> =
     (Unhandled_Rejection,
      \<lparr>conf = \<lparr>token = Some (k # t), devices = Some (d # ds)\<rparr>,
       trace = tr @
         [Log (Cat (Str ''Point: '') (Styled green (Str (name d)))),
          Get \<lparr>baseURL = apiURL, url = ''/devices/'' @ id' d @ ''/'' @ endpoint sn, params = [],
               authorization = Some (''Bearer '' @ k # t)\<rparr>]\<rparr>)"
proof -
  have e: "getDevice \<lparr>token = x, devices = Some []\<rparr> deviceName = None" for x
    by (cases deviceName) (simp_all add: getDevice_def lodash_find_name_def lodash_first_def)
  have n: "getDevice \<lparr>token = Some (k # t), devices = Some (d # ds)\<rparr> None = Some d"
    by (simp add: getDevice_def lodash_find_name_def lodash_first_def)
  have u: "getDevice \<lparr>token = tk, devices = None\<rparr> deviceName = None"
    by (simp add: getDevice_def lodash_find_name_def lodash_first_def)
  show ?thesis
    by (simp add: sensor_command_def checkAuth_def e n u lodash_last_def req_get_def axios_get_def
        console_log_def bearer_def)
qed

section \<open>The timeline\<close>














section \<open>The list of devices\<close>

lemma join_objects_shape:
  "\<exists>u. join '','' (map (\<lambda>d. ''[object Object]'') (d # ds)) = CHR ''['' # CHR ''o'' # u @ [CHR '']'']"
proof (induction ds arbitrary: d)
  case Nil
  show ?case by simp
next
  case (Cons e es)
  from Cons.IH [of e] obtain u where
    "join '','' (map (\<lambda>d. ''[object Object]'') (e # es)) = CHR ''['' # CHR ''o'' # u @ [CHR '']'']"
    by blast
  then have "join '','' (map (\<lambda>d. ''[object Object]'') (d # e # es)) =
      CHR ''['' # CHR ''o'' # (''bject Object],[o'' @ u) @ [CHR '']'']"
    by simp
  then show ?case by blast
qed

lemma trim_bracketed: "trim (CHR ''['' # u @ [CHR '']'']) = CHR ''['' # u @ [CHR '']'']"
  by (simp add: trim_def is_StrWhiteSpaceChar_def)

lemma bracketed_NaN: "StringToNumber (CHR ''['' # CHR ''o'' # u @ [CHR '']'']) = NaN"
proof -
  have t: "trim (CHR ''['' # CHR ''o'' # u @ [CHR '']'']) = CHR ''['' # CHR ''o'' # u @ [CHR '']'']"
    using trim_bracketed [of "CHR ''o'' # u"] by simp
  have n: "NonDecimalIntegerLiteral (CHR ''['' # CHR ''o'' # u @ [CHR '']'']) = None"
    by (simp add: NonDecimalIntegerLiteral_def)
  have d: "StrDecimalLiteral (CHR ''['' # CHR ''o'' # u @ [CHR '']'']) = NaN"
    by (simp add: StrDecimalLiteral_def StrUnsignedDecimalLiteral_def is_digit_def)
  show ?thesis
    unfolding StringToNumber_def t by (simp add: n d)
qed

lemma array_never_gt_1: "\<not> array_gt_1 array"
proof (cases array)
  case Nil
  then show ?thesis
    by (simp add: array_gt_1_def array_toString_def StringToNumber_def trim_def)
next
  case (Cons d ds)
  then obtain u where "array_toString array = CHR ''['' # CHR ''o'' # u @ [CHR '']'']"
    using join_objects_shape [of d ds] unfolding array_toString_def by blast
  then show ?thesis
    by (simp add: array_gt_1_def bracketed_NaN)
qed

lemma devices_for_eq:
  "devices_for X verbose array ds s =
     s\<lparr>trace := trace s @
        concat (map (\<lambda>device.
                       [Log (Cat (Str ''Name: '') (Styled green (Str (description device)))),
                        Log (Cat (Str ''ID: '') (Styled green (Str (device_id device))))] @
                       (if verbose
                        then [Log (Cat (Str ''Online: '')
                                     (Styled green (Str (if offline device then cross_mark else check_mark)))),
                              Log (Cat (Str ''Active: '')
                                     (Styled green (Str (if active device then check_mark else cross_mark)))),
                              Log (Cat (Str ''Last seen: '')
                                     (Styled green (Str (formatDate X (last_heard_from_at device)))))]
                        else []))
                  ds)\<rparr>"
  by (induction ds arbitrary: s) (simp_all add: array_never_gt_1 console_log_def)

lemma devices_for_no_blank:
  "Log (Str [CHR 0x0A]) \<notin> set (trace s) \<Longrightarrow>
     Log (Str [CHR 0x0A]) \<notin> set (trace (devices_for X verbose array ds s))"
  by (auto simp add: devices_for_eq split: if_splits)

text \<open>
  Claim C10. The test before the blank line compares the array of devices itself
  with 1, and is false for every array of device objects: the empty array reads as
  0, any other as \<open>NaN\<close>. So the \<^verbatim>\<open>devices\<close> command never prints the blank line,
  whatever the response, the options and the configuration: with a token cached its
  output is the lines of the devices one after the other, and nothing between them.
\<close>

theorem devices_never_separated:
  "\<not> array_gt_1 ds \<and>
   Log (Str [CHR 0x0A]) \<notin>
     set (trace (snd (devices_command X verbose debug (Resolved ds) \<lparr>conf = c, trace = []\<rparr>))) \<and>
   devices_command X verbose debug (Resolved ds)
       \<lparr>conf = \<lparr>token = Some (k # t), devices = cached\<rparr>, trace = []\<rparr> =
     (Finished,
      \<lparr>conf = \<lparr>token = Some (k # t), devices = cached\<rparr>,
       trace =
         [Get \<lparr>baseURL = apiURL, url = ''/devices'', params = [],
               authorization = Some (''Bearer '' @ k # t)\<rparr>] @
         (if debug then [Log Inspected] else []) @
         concat (map (\<lambda>device.
                       [Log (Cat (Str ''Name: '') (Styled green (Str (description device)))),
                        Log (Cat (Str ''ID: '') (Styled green (Str (device_id device))))] @
                       (if verbose
                        then [Log (Cat (Str ''Online: '')
                                     (Styled green (Str (if offline device then cross_mark else check_mark)))),
                              Log (Cat (Str ''Active: '')
                                     (Styled green (Str (if active device then check_mark else cross_mark)))),
                              Log (Cat (Str ''Last seen: '')
                                     (Styled green (Str (formatDate X (last_heard_from_at device)))))]
                        else []))
                  ds)\<rparr>)"
proof -
  have 1: "\<not> array_gt_1 ds" by (rule array_never_gt_1)
  have 2: "Log (Str [CHR 0x0A]) \<notin>
     set (trace (snd (devices_command X verbose debug (Resolved ds) \<lparr>conf = c, trace = []\<rparr>)))"
    by (simp add: devices_command_def checkAuth_def console_log_def no_token_message_def
        req_get_def axios_get_def devices_for_no_blank Let_def split: option.splits)
  have 3: "devices_command X verbose debug (Resolved ds)
       \<lparr>conf = \<lparr>token = Some (k # t), devices = cached\<rparr>, trace = []\<rparr> =
     (Finished,
      \<lparr>conf = \<lparr>token = Some (k # t), devices = cached\<rparr>,
       trace =
         [Get \<lparr>baseURL = apiURL, url = ''/devices'', params = [],
               authorization = Some (''Bearer '' @ k # t)\<rparr>] @
         (if debug then [Log Inspected] else []) @
         concat (map (\<lambda>device.
                       [Log (Cat (Str ''Name: '') (Styled green (Str (description device)))),
                        Log (Cat (Str ''ID: '') (Styled green (Str (device_id device))))] @
                       (if verbose
                        then [Log (Cat (Str ''Online: '')
                                     (Styled green (Str (if offline device then cross_mark else check_mark)))),
                              Log (Cat (Str ''Active: '')
                                     (Styled green (Str (if active device then check_mark else cross_mark)))),
                              Log (Cat (Str ''Last seen: '')
                                     (Styled green (Str (formatDate X (last_heard_from_at device)))))]
                        else []))
                  ds)\<rparr>)"
    by (simp add: devices_command_def checkAuth_def req_get_def axios_get_def devices_for_eq
        console_log_def bearer_def)
  from 1 2 3 show ?thesis by blast
qed

end
